theory Spec2Isabelle
  imports Complex_Main
begin

section \<open>Scalars and mesh fields\<close>

text \<open>
  A scalar of the field library is a floating-point number. Its finite values are kept
  as reals; every value that is not a finite number (an infinity or a NaN, which a
  division by zero or the square root of a negative number produces) is collapsed into
  \<open>None\<close>. A non-finite operand makes the result non-finite, so \<open>Some x\<close> says that
  no division by zero stands anywhere behind \<open>x\<close>. Rounding and overflow are outside
  the model.
\<close>

type_synonym scalar = "real option"

text \<open>A cell of the mesh is its index; a volScalarField holds one scalar per cell.\<close>

type_synonym label = nat

type_synonym volScalarField = "label \<Rightarrow> scalar"

fun scalar_add :: "scalar \<Rightarrow> scalar \<Rightarrow> scalar" where
  "scalar_add (Some x) (Some y) = Some (x + y)"
| "scalar_add _ _ = None"

fun scalar_mult :: "scalar \<Rightarrow> scalar \<Rightarrow> scalar" where
  "scalar_mult (Some x) (Some y) = Some (x * y)"
| "scalar_mult _ _ = None"

fun scalar_div :: "scalar \<Rightarrow> scalar \<Rightarrow> scalar" where
  "scalar_div (Some x) (Some y) = (if y = 0 then None else Some (x / y))"
| "scalar_div _ _ = None"

fun scalar_max :: "scalar \<Rightarrow> scalar \<Rightarrow> scalar" where
  "scalar_max (Some x) (Some y) = Some (max x y)"
| "scalar_max _ _ = None"

fun scalar_sqrt :: "scalar \<Rightarrow> scalar" where
  "scalar_sqrt (Some x) = (if x < 0 then None else Some (sqrt x))"
| "scalar_sqrt None = None"

text \<open>The field operators act cell by cell.\<close>

definition field_add :: "volScalarField \<Rightarrow> volScalarField \<Rightarrow> volScalarField" where
  "field_add f g = (\<lambda>c. scalar_add (f c) (g c))"

definition field_mult :: "volScalarField \<Rightarrow> volScalarField \<Rightarrow> volScalarField" where
  "field_mult f g = (\<lambda>c. scalar_mult (f c) (g c))"

definition field_div :: "volScalarField \<Rightarrow> volScalarField \<Rightarrow> volScalarField" where
  "field_div f g = (\<lambda>c. scalar_div (f c) (g c))"

definition field_max :: "volScalarField \<Rightarrow> volScalarField \<Rightarrow> volScalarField" where
  "field_max f g = (\<lambda>c. scalar_max (f c) (g c))"

definition field_sqrt :: "volScalarField \<Rightarrow> volScalarField" where
  "field_sqrt f = (\<lambda>c. scalar_sqrt (f c))"

text \<open>A dimensionedScalar is one finite number, the same in every cell.\<close>

definition uniformField :: "real \<Rightarrow> volScalarField" where
  "uniformField v = (\<lambda>c. Some v)"

section \<open>The closure state\<close>

text \<open>
  The members of class kOmegaSSTPANS (kOmegaSSTPANS.H, lines 113 to 125) and the
  members of its base class kOmegaSST that the header reaches through \<open>this->\<close>.
  A member \<open>x_\<close> of the source is the field \<open>x_m\<close> here. \<open>nu\<close> stands for what
  \<open>this->nu()\<close> returns, the molecular viscosity of the transport model. The
  coefficients carry the names of the header's kOmegaSSTCoeffs block.

  Modelled from the spec: the last five members are not declared in the header. They
  are the "small positive floor" of the unresolved fields (\<open>kMin_m\<close>, \<open>omegaMin_m\<close>),
  the "configured minimum/maximum bound" of the eddy viscosity (\<open>nutMin_m\<close>,
  \<open>nutMax_m\<close>) and "the stored F2 field" that the eddy-viscosity corrector overwrites.
\<close>

record kOmegaSSTPANS =
  alphaK1_m :: real
  alphaK2_m :: real
  alphaOmega1_m :: real
  alphaOmega2_m :: real
  betaStar_m :: real
  a1_m :: real
  b1_m :: real
  k_m :: volScalarField
  omega_m :: volScalarField
  nut_m :: volScalarField
  nu :: volScalarField
  fEpsilon_m :: real
  uLim_m :: real
  loLim_m :: real
  fK_m :: volScalarField
  fOmega_m :: volScalarField
  delta_m :: volScalarField
  kU_m :: volScalarField
  omegaU_m :: volScalarField
  kMin_m :: real
  omegaMin_m :: real
  nutMin_m :: real
  nutMax_m :: real
  F2_m :: volScalarField

section \<open>The member functions of the header\<close>

text \<open>
  Modelled from the spec: \<open>alphaK\<close> and \<open>alphaOmega\<close> are member functions of the base
  class kOmegaSST, whose files are not part of the sources. The closure-coefficient
  blender "linearly interpolates diffusion coefficients" with F1 between the two
  sub-models: the first coefficient where F1 is 1, the second where F1 is 0.
\<close>

definition blend :: "volScalarField \<Rightarrow> real \<Rightarrow> real \<Rightarrow> volScalarField" where
  "blend F1 psi1 psi2 = field_add (field_mult F1 (uniformField (psi1 - psi2))) (uniformField psi2)"

text \<open>
  Modelled from the spec: the bodies of \<open>alphaK(F1)\<close> and \<open>alphaOmega(F1)\<close> are
  missing (base class). They blend the header's coefficients alphaK1, alphaK2 and
  alphaOmega1, alphaOmega2.
\<close>

definition alphaK :: "kOmegaSSTPANS \<Rightarrow> volScalarField \<Rightarrow> volScalarField" where
  "alphaK st F1 = blend F1 (alphaK1_m st) (alphaK2_m st)"

definition alphaOmega :: "kOmegaSSTPANS \<Rightarrow> volScalarField \<Rightarrow> volScalarField" where
  "alphaOmega st F1 = blend F1 (alphaOmega1_m st) (alphaOmega2_m st)"

text \<open>Access function to filter width (line 187).\<close>

definition delta :: "kOmegaSSTPANS \<Rightarrow> volScalarField" where
  "delta st = delta_m st"

text \<open>
  The effective diffusivity for unresolved k (line 193):
  \<open>(fK_/fOmega_)*this->alphaK(F1)*this->nut_ + this->nu()\<close>.
\<close>

definition DkUEff :: "kOmegaSSTPANS \<Rightarrow> volScalarField \<Rightarrow> volScalarField" where
  "DkUEff st F1 =
     field_add
       (field_mult (field_mult (field_div (fK_m st) (fOmega_m st)) (alphaK st F1)) (nut_m st))
       (nu st)"

text \<open>
  The effective diffusivity for unresolved omega (line 206):
  \<open>(fK_/fOmega_)*this->alphaOmega(F1)*this->nut_ + this->nu()\<close>.
\<close>

definition DomegaUEff :: "kOmegaSSTPANS \<Rightarrow> volScalarField \<Rightarrow> volScalarField" where
  "DomegaUEff st F1 =
     field_add
       (field_mult (field_mult (field_div (fK_m st) (fOmega_m st)) (alphaOmega st F1)) (nut_m st))
       (nu st)"

text \<open>The turbulence kinetic energy (line 219): \<open>return this->k_\<close>.\<close>

definition k :: "kOmegaSSTPANS \<Rightarrow> volScalarField" where
  "k st = k_m st"

text \<open>
  The turbulence kinetic energy dissipation rate (line 225): a new field built from
  \<open>this->betaStar_*this->k_*this->omega_\<close>.
\<close>

definition epsilon :: "kOmegaSSTPANS \<Rightarrow> volScalarField" where
  "epsilon st = field_mult (field_mult (uniformField (betaStar_m st)) (k_m st)) (omega_m st)"

text \<open>Line 244: \<open>return this->omega_\<close>.\<close>

definition omega :: "kOmegaSSTPANS \<Rightarrow> volScalarField" where
  "omega st = omega_m st"

text \<open>The unresolved turbulence kinetic energy (line 251): \<open>return kU_\<close>.\<close>

definition kU :: "kOmegaSSTPANS \<Rightarrow> volScalarField" where
  "kU st = kU_m st"

text \<open>Line 257: \<open>return omegaU_\<close>.\<close>

definition omegaU :: "kOmegaSSTPANS \<Rightarrow> volScalarField" where
  "omegaU st = omegaU_m st"

section \<open>The members whose bodies are in kOmegaSSTPANS.C\<close>

text \<open>
  The header declares \<open>correct()\<close> and \<open>correctNut(S2, F2)\<close>; their bodies are in
  kOmegaSSTPANS.C, which is not part of the sources. The definitions of this section
  follow the spec's description of them.
\<close>

text \<open>
  Modelled from the spec: the body of the clipping is missing. "Clip to [loLim, uLim]",
  written as the field library's \<open>min(max(x, lo), hi)\<close>.
\<close>

definition clip :: "real \<Rightarrow> real \<Rightarrow> real \<Rightarrow> real" where
  "clip lo hi x = min (max x lo) hi"

text \<open>
  Modelled from the spec: the clipping of the eddy-viscosity quotient is missing. It
  "clips to a configured minimum/maximum bound", so that the closure never "returns
  non-finite values" for a zero denominator. A finite quotient is clipped as above. With
  a zero denominator the quotient of a positive numerator is plus infinity, which
  \<open>min(max(x, lo), hi)\<close> takes to the upper bound; the quotient of any other
  numerator is minus infinity or 0/0, for which \<open>max(x, lo)\<close> gives \<open>lo\<close> and the
  clip \<open>min(lo, hi)\<close>. An operand that is itself not a finite number is outside what
  the spec describes and stays so.
\<close>

fun clippedQuotient :: "real \<Rightarrow> real \<Rightarrow> scalar \<Rightarrow> scalar \<Rightarrow> scalar" where
  "clippedQuotient lo hi (Some n) (Some d) =
     Some (if d = 0 then (if 0 < n then hi else min lo hi) else clip lo hi (n / d))"
| "clippedQuotient lo hi _ _ = None"

text \<open>
  Modelled from the spec: the bounding of a solved field is missing. "Negative kU/omegaU
  after solving: clipped to a small positive floor".
\<close>

definition bound :: "volScalarField \<Rightarrow> real \<Rightarrow> volScalarField" where
  "bound f fMin = field_max f (uniformField fMin)"

text \<open>
  Modelled from the spec: the resolution-control evaluator is missing. It produces "an
  unclipped fK estimate", then "clip to [loLim, uLim]; set fOmega = fK / fEpsilon". The
  spec leaves the estimate's formula open (the exponent and the normalisation are an
  open question of its design notes), so the estimate is the parameter \<open>est\<close>: any
  function of the state (the filter width and the unresolved fields are in it) and the
  cell that delivers a finite number. The failure policy for a degenerate filter width,
  "clip defensively to loLim", is the case of an estimate at or below loLim there.
\<close>

definition resolutionControl ::
  "(kOmegaSSTPANS \<Rightarrow> label \<Rightarrow> real) \<Rightarrow> kOmegaSSTPANS \<Rightarrow> kOmegaSSTPANS" where
  "resolutionControl est st =
     (let st1 = st\<lparr>fK_m := (\<lambda>c. Some (clip (loLim_m st) (uLim_m st) (est st c)))\<rparr>
      in st1\<lparr>fOmega_m := field_div (fK_m st1) (uniformField (fEpsilon_m st1))\<rparr>)"

text \<open>
  Modelled from the spec: the eddy-viscosity formula is missing. "a1 * kU / max(a1 *
  omegaU, b1 * F2 * sqrt(S2))": its numerator, and its denominator, the realizability
  limiter, as functions of the turbulence field they are evaluated on.
\<close>

definition nutNumerator :: "kOmegaSSTPANS \<Rightarrow> volScalarField \<Rightarrow> volScalarField" where
  "nutNumerator st kFld = field_mult (uniformField (a1_m st)) kFld"

definition nutDenominator ::
  "kOmegaSSTPANS \<Rightarrow> volScalarField \<Rightarrow> volScalarField \<Rightarrow> volScalarField \<Rightarrow> volScalarField" where
  "nutDenominator st wFld S2 F2 =
     field_max
       (field_mult (uniformField (a1_m st)) wFld)
       (field_mult (field_mult (uniformField (b1_m st)) F2) (field_sqrt S2))"

text \<open>
  Modelled from the spec: the body of \<open>correctNut(S2, F2)\<close> (declared at line 133) is
  missing. It computes the formula on the unresolved fields, "then clips to a configured
  minimum/maximum bound", and "overwrites the stored eddy-viscosity field and the stored
  F2 field". It is "called once per correct() invocation, after the transport equations
  have been advanced".
\<close>

definition correctNut :: "volScalarField \<Rightarrow> volScalarField \<Rightarrow> kOmegaSSTPANS \<Rightarrow> kOmegaSSTPANS" where
  "correctNut S2 F2 st =
     st\<lparr>nut_m := (\<lambda>c. clippedQuotient (nutMin_m st) (nutMax_m st)
                          (nutNumerator st (kU_m st) c)
                          (nutDenominator st (omegaU_m st) S2 F2 c)),
        F2_m := F2\<rparr>"

text \<open>
  Modelled from the spec: what one time step receives from the parts that are missing or
  outside the closure state: the solutions of the two
  transport equations as the linear solver returns them, the strain-rate-squared field,
  the F2 blending field and the unclipped fK estimate.
\<close>

record stepInputs =
  solvedKU :: volScalarField
  solvedOmegaU :: volScalarField
  strainS2 :: volScalarField
  blendingF2 :: volScalarField
  fKEstimate :: "kOmegaSSTPANS \<Rightarrow> label \<Rightarrow> real"

text \<open>
  Modelled from the spec: the body of \<open>correct()\<close> (declared at line 263) is missing.
  One linear pass: "assemble and solve the unresolved-k equation, assemble and solve the
  unresolved-omega equation (bounded to remain positive), recompute fK/fOmega, update
  eddy viscosity".
\<close>

definition correct :: "stepInputs \<Rightarrow> kOmegaSSTPANS \<Rightarrow> kOmegaSSTPANS" where
  "correct inp st =
     (let st1 = st\<lparr>kU_m := bound (solvedKU inp) (kMin_m st)\<rparr>;
          st2 = st1\<lparr>omegaU_m := bound (solvedOmegaU inp) (omegaMin_m st1)\<rparr>;
          st3 = resolutionControl (fKEstimate inp) st2
      in correctNut (strainS2 inp) (blendingF2 inp) st3)"

section \<open>Sample states\<close>

text \<open>
  A model instance with the default coefficients of the header's kOmegaSSTCoeffs block
  and uniform fields: half of the turbulence kinetic energy is unresolved, and the
  stored totals are the quotients \<open>kU/fK\<close> and \<open>omegaU/fOmega\<close>.
\<close>

definition defaultState :: kOmegaSSTPANS where
  "defaultState =
     \<lparr> alphaK1_m = 0.85, alphaK2_m = 1, alphaOmega1_m = 0.5, alphaOmega2_m = 0.856,
       betaStar_m = 0.09, a1_m = 0.31, b1_m = 1,
       k_m = uniformField 2, omega_m = uniformField 4,
       nut_m = uniformField 0.25, nu = uniformField 0.5,
       fEpsilon_m = 1, uLim_m = 1, loLim_m = 0.1,
       fK_m = uniformField 0.5, fOmega_m = uniformField 0.5,
       delta_m = uniformField 0.1,
       kU_m = uniformField 1, omegaU_m = uniformField 2,
       kMin_m = 0.001, omegaMin_m = 0.001, nutMin_m = 0, nutMax_m = 1000,
       F2_m = uniformField 1 \<rparr>"

text \<open>
  An instance whose lower limit is 0 and whose resolution-control fields sit on it:
  \<open>fK = 0\<close> and \<open>fOmega = fK / fEpsilon = 0\<close>.
\<close>

definition zeroFKState :: kOmegaSSTPANS where
  "zeroFKState =
     defaultState\<lparr>loLim_m := 0, fK_m := uniformField 0, fOmega_m := uniformField 0\<rparr>"

text \<open>
  The inputs of one time step: the solver returns \<open>kU = 1\<close> and \<open>omegaU = 0\<close>, the
  strain rate and F2 are 1 and the unclipped fK estimate is 3 in every cell.
\<close>

definition sampleStep :: stepInputs where
  "sampleStep =
     \<lparr> solvedKU = uniformField 1, solvedOmegaU = uniformField 0,
       strainS2 = uniformField 1, blendingF2 = uniformField 1,
       fKEstimate = (\<lambda>st c. 3) \<rparr>"

text \<open>The same step where the F2 blending field vanishes in every cell.\<close>

definition zeroBlendingStep :: stepInputs where
  "zeroBlendingStep = sampleStep\<lparr>blendingF2 := uniformField 0\<rparr>"

section \<open>Cell-wise readings of the definitions\<close>

lemma clip_bounds: "lo \<le> hi \<Longrightarrow> lo \<le> clip lo hi x \<and> clip lo hi x \<le> hi"
  by (simp add: clip_def)

lemma clip_nonneg: "0 \<le> hi \<Longrightarrow> 0 \<le> x \<Longrightarrow> 0 \<le> clip lo hi x"
  by (simp add: clip_def)

lemma DkUEff_cell:
  "DkUEff st F1 c
     = scalar_add
         (scalar_mult (scalar_mult (scalar_div (fK_m st c) (fOmega_m st c)) (alphaK st F1 c))
            (nut_m st c))
         (nu st c)"
  by (simp add: DkUEff_def field_add_def field_mult_def field_div_def)

lemma DomegaUEff_cell:
  "DomegaUEff st F1 c
     = scalar_add
         (scalar_mult (scalar_mult (scalar_div (fK_m st c) (fOmega_m st c)) (alphaOmega st F1 c))
            (nut_m st c))
         (nu st c)"
  by (simp add: DomegaUEff_def field_add_def field_mult_def field_div_def)

lemma fK_after_correct:
  "fK_m (correct inp st) c
     = Some (clip (loLim_m st) (uLim_m st)
          (fKEstimate inp
             (st\<lparr>kU_m := bound (solvedKU inp) (kMin_m st),
                 omegaU_m := bound (solvedOmegaU inp) (omegaMin_m st)\<rparr>) c))"
  by (simp add: correct_def resolutionControl_def correctNut_def Let_def)

lemma fOmega_after_correct:
  "fOmega_m (correct inp st) c
     = scalar_div (fK_m (correct inp st) c) (Some (fEpsilon_m st))"
  by (simp add: correct_def resolutionControl_def correctNut_def Let_def field_div_def
      uniformField_def)

lemma constants_after_correct:
  "fEpsilon_m (correct inp st) = fEpsilon_m st \<and> uLim_m (correct inp st) = uLim_m st
   \<and> loLim_m (correct inp st) = loLim_m st"
  by (simp add: correct_def resolutionControl_def correctNut_def Let_def)

lemma clip_above: "hi \<le> x \<Longrightarrow> clip lo hi x = hi"
  by (simp add: clip_def)

lemma unresolved_after_correct:
  "kU_m (correct inp st) c = scalar_max (solvedKU inp c) (Some (kMin_m st))
   \<and> omegaU_m (correct inp st) c = scalar_max (solvedOmegaU inp c) (Some (omegaMin_m st))"
  by (simp add: correct_def resolutionControl_def correctNut_def Let_def bound_def
      field_max_def uniformField_def)

lemma nut_after_correct:
  "nut_m (correct inp st) c
     = clippedQuotient (nutMin_m st) (nutMax_m st)
         (scalar_mult (Some (a1_m st)) (scalar_max (solvedKU inp c) (Some (kMin_m st))))
         (scalar_max
            (scalar_mult (Some (a1_m st))
               (scalar_max (solvedOmegaU inp c) (Some (omegaMin_m st))))
            (scalar_mult (scalar_mult (Some (b1_m st)) (blendingF2 inp c))
               (scalar_sqrt (strainS2 inp c))))"
  by (simp add: correct_def resolutionControl_def correctNut_def Let_def bound_def
      nutNumerator_def nutDenominator_def field_mult_def field_max_def field_sqrt_def
      uniformField_def)

lemma floored_denominator_positive:
  fixes a w wMin L :: real
  assumes "0 < a" and "0 < wMin"
  shows "0 < max (a * max w wMin) L"
proof -
  from assms(2) have "0 < max w wMin" by (simp add: less_max_iff_disj)
  with assms(1) have "0 < a * max w wMin" by simp
  then show ?thesis by (simp add: less_max_iff_disj)
qed

lemma limiter_limit:
  fixes a ku L lo hi :: real
  assumes "0 < L"
  shows "((\<lambda>w. clip lo hi (a * ku / max (a * w) L)) \<longlongrightarrow> clip lo hi (a * ku / L))
           (at_right 0)"
proof -
  have "((\<lambda>w. clip lo hi (a * ku / max (a * w) L))
          \<longlongrightarrow> clip lo hi (a * ku / max (a * 0) L)) (at_right 0)"
    unfolding clip_def using assms
    by (intro tendsto_intros) (auto simp: max_def)
  with assms show ?thesis by (simp add: max_def)
qed

lemma unlimited_limit:
  fixes a kb L lo hi :: real
  assumes "0 < a" and "0 < kb" and "L \<le> 0"
  shows "((\<lambda>w. clip lo hi (a * kb / max (a * w) L)) \<longlongrightarrow> hi) (at_right 0)"
proof (rule tendsto_eventually)
  define b where "b = (if 0 < hi then kb / hi else 1)"
  have bpos: "0 < b" using assms(2) by (simp add: b_def)
  have "clip lo hi (a * kb / max (a * w) L) = hi" if "0 < w" and "w < b" for w
  proof -
    from that(1) assms(1) have aw: "0 < a * w" by simp
    with assms(3) have m: "max (a * w) L = a * w" by simp
    have q: "a * kb / (a * w) = kb / w" using assms(1) by simp
    have "hi \<le> kb / w"
    proof (cases "0 < hi")
      case True
      with that(2) have "w < kb / hi" by (simp add: b_def)
      with True have "w * hi < kb" by (simp add: pos_less_divide_eq)
      with that(1) have "hi < kb / w" by (simp add: pos_less_divide_eq mult.commute)
      then show ?thesis by simp
    next
      case False
      moreover from that(1) assms(2) have "0 < kb / w" by simp
      ultimately show ?thesis by simp
    qed
    then have "clip lo hi (kb / w) = hi" by (rule clip_above)
    with m q show ?thesis by (simp only:)
  qed
  with bpos show "eventually (\<lambda>w. clip lo hi (a * kb / max (a * w) L) = hi) (at_right 0)"
    unfolding eventually_at_right_field by blast
qed

lemma zero_numerator_limit:
  fixes a L lo hi :: real
  shows "((\<lambda>w. clip lo hi (a * 0 / max (a * w) L)) \<longlongrightarrow> clip lo hi 0) (at_right 0)"
  by simp

lemma clipped_limiter_has_limit:
  fixes a kb L lo hi :: real
  assumes "0 < a" and "0 \<le> kb"
  shows "\<exists>l. ((\<lambda>w. clip lo hi (a * kb / max (a * w) L)) \<longlongrightarrow> l) (at_right 0)"
proof (cases "0 < L")
  case True
  then show ?thesis using limiter_limit by blast
next
  case False
  show ?thesis
  proof (cases "kb = 0")
    case True
    then show ?thesis using zero_numerator_limit [of lo hi a L] by blast
  next
    case False
    with assms(2) have "0 < kb" by simp
    with assms(1) \<open>\<not> 0 < L\<close> show ?thesis using unlimited_limit [of a kb L lo hi] by auto
  qed
qed

section \<open>The resolution-control invariant\<close>

text \<open>
  C1. After every correct(), whatever the filter width, the solver's results and the
  unclipped estimate are, every cell of fK holds a finite number between loLim and uLim
  and fOmega holds fK / fEpsilon, which lies between loLim / fEpsilon and
  uLim / fEpsilon; correct() leaves the three constants as they are. The coefficient
  set is one for which the two intervals exist: loLim is at most uLim and fEpsilon is
  positive.
\<close>

theorem fK_fOmega_bounded_after_correct:
  assumes "loLim_m st \<le> uLim_m st" and "0 < fEpsilon_m st"
  shows "\<exists>x. fK_m (correct inp st) c = Some x
           \<and> loLim_m st \<le> x \<and> x \<le> uLim_m st
           \<and> fOmega_m (correct inp st) c = Some (x / fEpsilon_m st)
           \<and> loLim_m st / fEpsilon_m st \<le> x / fEpsilon_m st
           \<and> x / fEpsilon_m st \<le> uLim_m st / fEpsilon_m st
           \<and> fEpsilon_m (correct inp st) = fEpsilon_m st
           \<and> uLim_m (correct inp st) = uLim_m st
           \<and> loLim_m (correct inp st) = loLim_m st"
proof -
  define x where "x = clip (loLim_m st) (uLim_m st)
          (fKEstimate inp
             (st\<lparr>kU_m := bound (solvedKU inp) (kMin_m st),
                 omegaU_m := bound (solvedOmegaU inp) (omegaMin_m st)\<rparr>) c)"
  have fK: "fK_m (correct inp st) c = Some x"
    unfolding x_def by (rule fK_after_correct)
  have range: "loLim_m st \<le> x \<and> x \<le> uLim_m st"
    unfolding x_def using assms(1) by (rule clip_bounds)
  have fOmega: "fOmega_m (correct inp st) c = Some (x / fEpsilon_m st)"
    using assms(2) by (simp add: fOmega_after_correct fK)
  have lo: "loLim_m st / fEpsilon_m st \<le> x / fEpsilon_m st"
    using range assms(2) by (simp add: divide_right_mono)
  have hi: "x / fEpsilon_m st \<le> uLim_m st / fEpsilon_m st"
    using range assms(2) by (simp add: divide_right_mono)
  show ?thesis
    using fK range fOmega lo hi constants_after_correct [of inp st] by blast
qed

text \<open>
  C1 at the default instance and the sample step: the estimate 3 is clipped to
  \<open>uLim = 1\<close>, and \<open>fOmega = 1 / 1\<close>.
\<close>

theorem fK_fOmega_bounded_witness:
  "loLim_m defaultState \<le> uLim_m defaultState \<and> 0 < fEpsilon_m defaultState
   \<and> fK_m (correct sampleStep defaultState) 0 = Some 1
   \<and> fOmega_m (correct sampleStep defaultState) 0 = Some 1
   \<and> (\<exists>x. fK_m (correct sampleStep defaultState) 0 = Some x
           \<and> loLim_m defaultState \<le> x \<and> x \<le> uLim_m defaultState)"
proof -
  have h1: "loLim_m defaultState \<le> uLim_m defaultState" by (simp add: defaultState_def)
  have h2: "0 < fEpsilon_m defaultState" by (simp add: defaultState_def)
  have v: "fK_m (correct sampleStep defaultState) 0 = Some 1"
    by (simp add: fK_after_correct sampleStep_def defaultState_def clip_def)
  have w: "fOmega_m (correct sampleStep defaultState) 0 = Some 1"
    unfolding fOmega_after_correct v by (simp add: defaultState_def)
  from fK_fOmega_bounded_after_correct [OF h1 h2, of sampleStep 0] h1 h2 v w
  show ?thesis by blast
qed

section \<open>The eddy-viscosity corrector\<close>

text \<open>
  C2. The corrector runs inside correct(), after the two solved fields have been
  bounded from below by their floors. For coefficients with a1 positive, a positive
  floor of omegaU, a non-negative floor of kU and a non-negative upper bound of the eddy
  viscosity, and for finite solver results, F2 and S2 >= 0 in the cell: the limiter's
  denominator max(a1 * omegaU, b1 * F2 * sqrt(S2)) is positive whatever F2 and S2 are,
  the stored eddy viscosity is the clipped a1 * kU / max(a1 * omegaU, b1 * F2 * sqrt(S2)),
  a finite number, and it is >= 0. As omegaU decreases to 0 the clipped value has a
  finite limit; with S2 and b1 * F2 positive the limit is the clipped
  a1 * kU / (b1 * F2 * sqrt(S2)).
\<close>

theorem nut_finite_nonnegative_after_correct:
  assumes "0 < a1_m st" and "0 < omegaMin_m st" and "0 \<le> kMin_m st" and "0 \<le> nutMax_m st"
    and "solvedKU inp c = Some ku" and "solvedOmegaU inp c = Some w"
    and "blendingF2 inp c = Some f" and "strainS2 inp c = Some s" and "0 \<le> s"
  shows "kU (correct inp st) c = Some (max ku (kMin_m st))
         \<and> omegaU (correct inp st) c = Some (max w (omegaMin_m st))
         \<and> 0 < max w (omegaMin_m st)
         \<and> 0 < max (a1_m st * max w (omegaMin_m st)) (b1_m st * f * sqrt s)
         \<and> nut_m (correct inp st) c
             = Some (clip (nutMin_m st) (nutMax_m st)
                  (a1_m st * max ku (kMin_m st)
                     / max (a1_m st * max w (omegaMin_m st)) (b1_m st * f * sqrt s)))
         \<and> 0 \<le> clip (nutMin_m st) (nutMax_m st)
                  (a1_m st * max ku (kMin_m st)
                     / max (a1_m st * max w (omegaMin_m st)) (b1_m st * f * sqrt s))
         \<and> (\<exists>l. ((\<lambda>w'. clip (nutMin_m st) (nutMax_m st)
                        (a1_m st * max ku (kMin_m st)
                           / max (a1_m st * w') (b1_m st * f * sqrt s)))
                 \<longlongrightarrow> l) (at_right 0))
         \<and> (0 < s \<and> 0 < b1_m st * f \<longrightarrow>
              ((\<lambda>w'. clip (nutMin_m st) (nutMax_m st)
                        (a1_m st * max ku (kMin_m st)
                           / max (a1_m st * w') (b1_m st * f * sqrt s)))
                 \<longlongrightarrow> clip (nutMin_m st) (nutMax_m st)
                       (a1_m st * max ku (kMin_m st) / (b1_m st * f * sqrt s))) (at_right 0))"
proof -
  let ?kb = "max ku (kMin_m st)"
  let ?wb = "max w (omegaMin_m st)"
  let ?L = "b1_m st * f * sqrt s"
  let ?d = "max (a1_m st * ?wb) ?L"
  have kb: "0 \<le> ?kb"
    using assms(3) by (simp add: le_max_iff_disj)
  have wb: "0 < ?wb"
    using assms(2) by (simp add: less_max_iff_disj)
  have d: "0 < ?d"
    using assms(1,2) by (rule floored_denominator_positive)
  have kU: "kU (correct inp st) c = Some ?kb"
    by (simp add: kU_def unresolved_after_correct assms(5))
  have omegaU: "omegaU (correct inp st) c = Some ?wb"
    by (simp add: omegaU_def unresolved_after_correct assms(6))
  have nut: "nut_m (correct inp st) c
      = Some (clip (nutMin_m st) (nutMax_m st) (a1_m st * ?kb / ?d))"
    using d assms(9) by (simp add: nut_after_correct assms(5,6,7,8))
  have "0 \<le> a1_m st * ?kb / ?d"
    using d kb assms(1) by simp
  then have nonneg: "0 \<le> clip (nutMin_m st) (nutMax_m st) (a1_m st * ?kb / ?d)"
    using assms(4) by (simp add: clip_nonneg)
  have lim: "\<exists>l. ((\<lambda>w'. clip (nutMin_m st) (nutMax_m st)
                        (a1_m st * ?kb / max (a1_m st * w') ?L)) \<longlongrightarrow> l) (at_right 0)"
    using assms(1) kb by (rule clipped_limiter_has_limit)
  have limL: "((\<lambda>w'. clip (nutMin_m st) (nutMax_m st)
                        (a1_m st * ?kb / max (a1_m st * w') ?L))
                 \<longlongrightarrow> clip (nutMin_m st) (nutMax_m st) (a1_m st * ?kb / ?L)) (at_right 0)"
    if "0 < s" and "0 < b1_m st * f"
  proof -
    from that have "0 < ?L" by simp
    then show ?thesis by (rule limiter_limit)
  qed
  from kU omegaU wb d nut nonneg lim limL show ?thesis by blast
qed

text \<open>
  C2 at the default instance with F2 = 0: the solver returns omegaU = 0, which is
  bounded to the floor 0.001, the denominator is a1 * 0.001 and the quotient
  0.31 * 1 / 0.00031 = 1000 is the upper bound of the eddy viscosity.
\<close>

theorem nut_finite_nonnegative_witness:
  "0 < a1_m defaultState \<and> 0 < omegaMin_m defaultState \<and> 0 \<le> kMin_m defaultState
   \<and> 0 \<le> nutMax_m defaultState
   \<and> solvedKU zeroBlendingStep 0 = Some 1 \<and> solvedOmegaU zeroBlendingStep 0 = Some 0
   \<and> blendingF2 zeroBlendingStep 0 = Some 0 \<and> strainS2 zeroBlendingStep 0 = Some 1
   \<and> omegaU (correct zeroBlendingStep defaultState) 0 = Some 0.001
   \<and> nut_m (correct zeroBlendingStep defaultState) 0 = Some 1000"
proof -
  have h1: "0 < a1_m defaultState" and h2: "0 < omegaMin_m defaultState"
    and h3: "0 \<le> kMin_m defaultState" and h4: "0 \<le> nutMax_m defaultState"
    by (simp_all add: defaultState_def)
  have h5: "solvedKU zeroBlendingStep 0 = Some 1"
    and h6: "solvedOmegaU zeroBlendingStep 0 = Some 0"
    and h7: "blendingF2 zeroBlendingStep 0 = Some 0"
    and h8: "strainS2 zeroBlendingStep 0 = Some 1"
    by (simp_all add: zeroBlendingStep_def sampleStep_def uniformField_def)
  have h9: "(0::real) \<le> 1" by simp
  have cs: "a1_m defaultState = 0.31" "b1_m defaultState = 1"
    "omegaMin_m defaultState = 0.001" "kMin_m defaultState = 0.001"
    "nutMin_m defaultState = 0" "nutMax_m defaultState = 1000"
    by (simp_all add: defaultState_def)
  note t = nut_finite_nonnegative_after_correct [OF h1 h2 h3 h4 h5 h6 h7 h8 h9]
  from t [THEN conjunct2, THEN conjunct1]
  have w: "omegaU (correct zeroBlendingStep defaultState) 0 = Some 0.001"
    by (simp add: cs)
  from t [THEN conjunct2, THEN conjunct2, THEN conjunct2, THEN conjunct2, THEN conjunct1]
  have n: "nut_m (correct zeroBlendingStep defaultState) 0 = Some 1000"
    by (simp add: cs clip_def)
  from h1 h2 h3 h4 h5 h6 h7 h8 w n show ?thesis by blast
qed

section \<open>The dissipation rate accessor\<close>

text \<open>
  C4. The epsilon() accessor returns in every cell betaStar * k * omega, k and omega being
  what the accessors k() and omega() return. No epsilon field is stored: the value is
  built from the current k_ and omega_ at each call, so it follows every change of them;
  where both are finite numbers the result is the finite product, and it is a finite
  number only there. (The third argument of the constructor, the boundary patch types,
  has no part in the cell values.)
\<close>

theorem epsilon_is_betaStar_k_omega:
  "epsilon st c = scalar_mult (scalar_mult (Some (betaStar_m st)) (k st c)) (omega st c)
   \<and> epsilon (st\<lparr>k_m := kn, omega_m := wn\<rparr>) c
       = scalar_mult (scalar_mult (Some (betaStar_m st)) (kn c)) (wn c)
   \<and> epsilon (st\<lparr>k_m := (\<lambda>i. Some (kv i)), omega_m := (\<lambda>i. Some (wv i))\<rparr>) c
       = Some (betaStar_m st * kv c * wv c)
   \<and> (epsilon st c \<noteq> None) = (k st c \<noteq> None \<and> omega st c \<noteq> None)"
proof -
  have cell: "epsilon st c
      = scalar_mult (scalar_mult (Some (betaStar_m st)) (k st c)) (omega st c)"
    by (simp add: epsilon_def k_def omega_def field_mult_def uniformField_def)
  have upd: "epsilon (st\<lparr>k_m := kn, omega_m := wn\<rparr>) c
      = scalar_mult (scalar_mult (Some (betaStar_m st)) (kn c)) (wn c)"
    by (simp add: epsilon_def field_mult_def uniformField_def)
  have fin: "epsilon (st\<lparr>k_m := (\<lambda>i. Some (kv i)), omega_m := (\<lambda>i. Some (wv i))\<rparr>) c
      = Some (betaStar_m st * kv c * wv c)"
    by (simp add: epsilon_def field_mult_def uniformField_def)
  have finite: "(epsilon st c \<noteq> None) = (k st c \<noteq> None \<and> omega st c \<noteq> None)"
    unfolding cell by (cases "k st c"; cases "omega st c") simp_all
  from cell upd fin finite show ?thesis by blast
qed

section \<open>The effective diffusivities\<close>

text \<open>
  C10, as the code has it. DkUEff and DomegaUEff are in every cell
  (fK / fOmega) * alphaK(F1) * nut + nu and (fK / fOmega) * alphaOmega(F1) * nut + nu;
  with finite operands and fOmega different from zero the value is a finite number.
  Where fOmega = fK / fEpsilon holds with fK and fEpsilon both different from zero, the
  factor fK / fOmega is fEpsilon.
\<close>

theorem effective_diffusivities:
  assumes "fK_m st c = Some x" and "fOmega_m st c = Some y" and "y \<noteq> 0"
    and "alphaK st F1 c = Some ak" and "alphaOmega st F1 c = Some aw"
    and "nut_m st c = Some n" and "nu st c = Some v"
  shows "DkUEff st F1 c
           = scalar_add
               (scalar_mult
                  (scalar_mult (scalar_div (fK_m st c) (fOmega_m st c)) (alphaK st F1 c))
                  (nut_m st c))
               (nu st c)
         \<and> DomegaUEff st F1 c
           = scalar_add
               (scalar_mult
                  (scalar_mult (scalar_div (fK_m st c) (fOmega_m st c)) (alphaOmega st F1 c))
                  (nut_m st c))
               (nu st c)
         \<and> DkUEff st F1 c = Some (x / y * ak * n + v)
         \<and> DomegaUEff st F1 c = Some (x / y * aw * n + v)
         \<and> (x \<noteq> 0 \<and> fEpsilon_m st \<noteq> 0
              \<and> fOmega_m st c = scalar_div (fK_m st c) (Some (fEpsilon_m st))
            \<longrightarrow> scalar_div (fK_m st c) (fOmega_m st c) = Some (fEpsilon_m st)
                \<and> x / y = fEpsilon_m st)"
proof -
  have dk: "DkUEff st F1 c = Some (x / y * ak * n + v)"
    using assms by (simp add: DkUEff_cell)
  have dw: "DomegaUEff st F1 c = Some (x / y * aw * n + v)"
    using assms by (simp add: DomegaUEff_cell)
  have ratio: "scalar_div (fK_m st c) (fOmega_m st c) = Some (fEpsilon_m st)
      \<and> x / y = fEpsilon_m st"
    if "x \<noteq> 0" and "fEpsilon_m st \<noteq> 0"
      and "fOmega_m st c = scalar_div (fK_m st c) (Some (fEpsilon_m st))"
  proof -
    from that(3) assms(1,2) that(2) have "y = x / fEpsilon_m st" by simp
    with that(1,2) have "x / y = fEpsilon_m st" by simp
    with assms(1,2,3) show ?thesis by simp
  qed
  from dk dw ratio DkUEff_cell [of st F1 c] DomegaUEff_cell [of st F1 c]
  show ?thesis by blast
qed

text \<open>
  C10 at the default instance with F1 = 1: fK = fOmega = 0.5 and fEpsilon = 1, so the
  factor is 1, DkUEff = 1 * 0.85 * 0.25 + 0.5 and DomegaUEff = 1 * 0.5 * 0.25 + 0.5.
\<close>

theorem effective_diffusivities_witness:
  "fK_m defaultState 0 = Some 0.5 \<and> fOmega_m defaultState 0 = Some 0.5
   \<and> alphaK defaultState (uniformField 1) 0 = Some 0.85
   \<and> alphaOmega defaultState (uniformField 1) 0 = Some 0.5
   \<and> nut_m defaultState 0 = Some 0.25 \<and> nu defaultState 0 = Some 0.5
   \<and> fOmega_m defaultState 0 = scalar_div (fK_m defaultState 0) (Some (fEpsilon_m defaultState))
   \<and> DkUEff defaultState (uniformField 1) 0 = Some 0.7125
   \<and> DomegaUEff defaultState (uniformField 1) 0 = Some 0.625
   \<and> scalar_div (fK_m defaultState 0) (fOmega_m defaultState 0) = Some (fEpsilon_m defaultState)"
proof -
  have h1: "fK_m defaultState 0 = Some 0.5" and h2: "fOmega_m defaultState 0 = Some 0.5"
    and h6: "nut_m defaultState 0 = Some 0.25" and h7: "nu defaultState 0 = Some 0.5"
    by (simp_all add: defaultState_def uniformField_def)
  have h3: "(0.5::real) \<noteq> 0" by simp
  have h4: "alphaK defaultState (uniformField 1) 0 = Some 0.85"
    by (simp add: alphaK_def blend_def field_add_def field_mult_def uniformField_def
        defaultState_def)
  have h5: "alphaOmega defaultState (uniformField 1) 0 = Some 0.5"
    by (simp add: alphaOmega_def blend_def field_add_def field_mult_def uniformField_def
        defaultState_def)
  have e: "fEpsilon_m defaultState = 1" by (simp add: defaultState_def)
  have inv: "fOmega_m defaultState 0
      = scalar_div (fK_m defaultState 0) (Some (fEpsilon_m defaultState))"
    by (simp add: h1 h2 e)
  note t = effective_diffusivities [OF h1 h2 h3 h4 h5 h6 h7]
  from t [THEN conjunct2, THEN conjunct2, THEN conjunct1]
  have dk: "DkUEff defaultState (uniformField 1) 0 = Some 0.7125" by simp
  from t [THEN conjunct2, THEN conjunct2, THEN conjunct2, THEN conjunct1]
  have dw: "DomegaUEff defaultState (uniformField 1) 0 = Some 0.625" by simp
  have pre: "(0.5::real) \<noteq> 0 \<and> fEpsilon_m defaultState \<noteq> 0
      \<and> fOmega_m defaultState 0
          = scalar_div (fK_m defaultState 0) (Some (fEpsilon_m defaultState))"
    using inv by (simp add: e)
  from t [THEN conjunct2, THEN conjunct2, THEN conjunct2, THEN conjunct2, THEN mp, OF pre]
  have ratio: "scalar_div (fK_m defaultState 0) (fOmega_m defaultState 0)
      = Some (fEpsilon_m defaultState)"
    by (rule conjunct1)
  have "DkUEff defaultState (uniformField 1) 0 = Some 0.7125
      \<and> DomegaUEff defaultState (uniformField 1) 0 = Some 0.625
      \<and> scalar_div (fK_m defaultState 0) (fOmega_m defaultState 0)
          = Some (fEpsilon_m defaultState)"
    using dk dw ratio by blast
  with h1 h2 h4 h5 h6 h7 inv show ?thesis by blast
qed

text \<open>
  C10, as stated, fails: with fK = 0 and fEpsilon = 1 the invariant fOmega = fK / fEpsilon
  holds (fOmega = 0), but fK / fOmega is 0 / 0, not a finite number and not fEpsilon,
  and DkUEff is not finite either.
\<close>

theorem rescaling_factor_undefined_at_zero_fK:
  "fOmega_m zeroFKState 0 = scalar_div (fK_m zeroFKState 0) (Some (fEpsilon_m zeroFKState))
   \<and> fEpsilon_m zeroFKState = 1
   \<and> scalar_div (fK_m zeroFKState 0) (fOmega_m zeroFKState 0) = None
   \<and> scalar_div (fK_m zeroFKState 0) (fOmega_m zeroFKState 0) \<noteq> Some (fEpsilon_m zeroFKState)
   \<and> DkUEff zeroFKState (uniformField 1) 0 = None"
  by (simp add: DkUEff_cell zeroFKState_def defaultState_def uniformField_def)

end
